theory Spec2Isabelle
  imports Main
begin

section \<open>The ring buffer of gocircular, embedded\<close>

text \<open>
  The Go package keeps a buffer in a struct with three fields: \<open>buf\<close>, a slice whose
  length is the capacity, \<open>r\<close>, the physical index of the front, and \<open>n\<close>, the number
  of elements. Every method has a pointer receiver and assigns to the fields and to the
  elements of \<open>buf\<close> in place.

  The model passes the struct explicitly and keeps the backing arrays in a store, so
  that two structs that share a backing array can be told from two that do not. A
  reference to an array is its position in the store; \<open>make_slice\<close> (Go's \<open>make\<close>) appends a new array.
  Go's \<open>int\<close> is modelled by \<open>int\<close>: each sum the code forms is smaller than twice the
  length of a backing array, so it stays far below \<open>2 ^ 63\<close> for every array that can be
  allocated with elements of non-zero size. The zero value of the element type is the
  \<open>0\<close> of class \<open>zero\<close>.
\<close>

subsection \<open>Run-time panics\<close>

datatype panic =
    CapacityPanic     \<comment> \<open>\<open>panic("gocircular: capacity must be at least 1")\<close>\<close>
  | IndexOutOfRange   \<comment> \<open>index expression outside \<open>0 \<le> i < len\<close>\<close>
  | DivideByZero      \<comment> \<open>\<open>%\<close> with a zero divisor\<close>
  | LenOutOfRange     \<comment> \<open>\<open>make\<close> with a negative length\<close>

definition andThen :: "panic + 'a \<Rightarrow> ('a \<Rightarrow> panic + 'b) \<Rightarrow> panic + 'b" where
  "andThen m f = (case m of Inl e \<Rightarrow> Inl e | Inr x \<Rightarrow> f x)"

text \<open>Go's \<open>%\<close> truncates towards zero: the result has the sign of the dividend.\<close>

definition go_rem :: "int \<Rightarrow> int \<Rightarrow> panic + int" where
  "go_rem a b = (if b = 0 then Inl DivideByZero else Inr (sgn a * (\<bar>a\<bar> mod \<bar>b\<bar>)))"

subsection \<open>The store of backing arrays\<close>

type_synonym addr = nat
type_synonym 'a heap = "'a list list"

text \<open>A reference outside the store behaves as the nil slice, of length 0.\<close>

definition arr :: "'a heap \<Rightarrow> addr \<Rightarrow> 'a list" where
  "arr h a = (if a < length h then h ! a else [])"

definition len :: "'a heap \<Rightarrow> addr \<Rightarrow> int" where
  "len h a = int (length (arr h a))"

definition make_slice :: "'a::zero heap \<Rightarrow> int \<Rightarrow> panic + (addr \<times> 'a heap)" where
  "make_slice h k = (if k < 0 then Inl LenOutOfRange
               else Inr (length h, h @ [replicate (nat k) 0]))"

definition load :: "'a heap \<Rightarrow> addr \<Rightarrow> int \<Rightarrow> panic + 'a" where
  "load h a i = (if 0 \<le> i \<and> i < len h a then Inr (arr h a ! nat i) else Inl IndexOutOfRange)"

definition store :: "'a heap \<Rightarrow> addr \<Rightarrow> int \<Rightarrow> 'a \<Rightarrow> panic + 'a heap" where
  "store h a i v = (if 0 \<le> i \<and> i < len h a then Inr (h[a := (arr h a)[nat i := v]])
                    else Inl IndexOutOfRange)"

subsection \<open>The struct and its constructor\<close>

record Buffer =
  buf :: addr
  r :: int
  n :: int


subsection \<open>Push and pop\<close>

definition PushBack :: "'a heap \<Rightarrow> Buffer \<Rightarrow> 'a \<Rightarrow> panic + (bool \<times> Buffer \<times> 'a heap)" where
  "PushBack h b v =
     (let c = len h (buf b);
          full = (n b = c)
      in andThen (if full then andThen (go_rem (r b + 1) c) (\<lambda>r'. Inr (b\<lparr>r := r'\<rparr>))
                  else Inr (b\<lparr>n := n b + 1\<rparr>)) (\<lambda>b1.
         andThen (go_rem (r b1 + n b1 - 1) c) (\<lambda>i.
         andThen (store h (buf b1) i v) (\<lambda>h'.
         Inr (full, b1, h')))))"

definition PushFront :: "'a heap \<Rightarrow> Buffer \<Rightarrow> 'a \<Rightarrow> panic + (bool \<times> Buffer \<times> 'a heap)" where
  "PushFront h b v =
     (let c = len h (buf b);
          full = (n b = c)
      in andThen (go_rem (r b + c - 1) c) (\<lambda>r'.
         let b1 = b\<lparr>r := r'\<rparr>;
             b2 = (if \<not> full then b1\<lparr>n := n b1 + 1\<rparr> else b1)
         in andThen (store h (buf b2) (r b2) v) (\<lambda>h'.
            Inr (full, b2, h'))))"

definition PopBack :: "'a::zero heap \<Rightarrow> Buffer \<Rightarrow> panic + (('a \<times> bool) \<times> Buffer \<times> 'a heap)" where
  "PopBack h b =
     (if n b = 0 then Inr ((0, False), b, h)
      else let c = len h (buf b)
           in andThen (go_rem (r b + n b - 1) c) (\<lambda>i.
              andThen (load h (buf b) i) (\<lambda>v.
              andThen (store h (buf b) i 0) (\<lambda>h'.
              Inr ((v, True), b\<lparr>n := n b - 1\<rparr>, h')))))"

definition PopFront :: "'a::zero heap \<Rightarrow> Buffer \<Rightarrow> panic + (('a \<times> bool) \<times> Buffer \<times> 'a heap)" where
  "PopFront h b =
     (if n b = 0 then Inr ((0, False), b, h)
      else let c = len h (buf b)
           in andThen (load h (buf b) (r b)) (\<lambda>v.
              andThen (store h (buf b) (r b) 0) (\<lambda>h'.
              andThen (go_rem (r b + 1) c) (\<lambda>r'.
              Inr ((v, True), b\<lparr>r := r', n := n b - 1\<rparr>, h')))))"

subsection \<open>Accessors\<close>

definition Front :: "'a::zero heap \<Rightarrow> Buffer \<Rightarrow> panic + ('a \<times> bool)" where
  "Front h b =
     (if n b = 0 then Inr (0, False)
      else andThen (load h (buf b) (r b)) (\<lambda>x. Inr (x, True)))"

definition Back :: "'a::zero heap \<Rightarrow> Buffer \<Rightarrow> panic + ('a \<times> bool)" where
  "Back h b =
     (if n b = 0 then Inr (0, False)
      else andThen (go_rem (r b + n b - 1) (len h (buf b))) (\<lambda>j.
           andThen (load h (buf b) j) (\<lambda>x. Inr (x, True))))"

definition At :: "'a::zero heap \<Rightarrow> Buffer \<Rightarrow> int \<Rightarrow> panic + ('a \<times> bool)" where
  "At h b i =
     (if i < 0 \<or> i \<ge> n b then Inr (0, False)
      else andThen (go_rem (r b + i) (len h (buf b))) (\<lambda>j.
           andThen (load h (buf b) j) (\<lambda>x. Inr (x, True))))"

definition Set :: "'a heap \<Rightarrow> Buffer \<Rightarrow> int \<Rightarrow> 'a \<Rightarrow> panic + (bool \<times> 'a heap)" where
  "Set h b i v =
     (if i < 0 \<or> i \<ge> n b then Inr (False, h)
      else andThen (go_rem (r b + i) (len h (buf b))) (\<lambda>j.
           andThen (store h (buf b) j v) (\<lambda>h'. Inr (True, h'))))"

definition Len :: "Buffer \<Rightarrow> int" where
  "Len b = n b"


definition Empty :: "Buffer \<Rightarrow> bool" where
  "Empty b = (n b = 0)"


subsection \<open>Loops\<close>

text \<open>\<open>Clear\<close>: \<open>for i := 0; i < b.n; i++ { b.buf[(b.r+i)%c] = zero }\<close>.\<close>

function Clear_loop :: "'a::zero heap \<Rightarrow> Buffer \<Rightarrow> int \<Rightarrow> int \<Rightarrow> panic + 'a heap" where
  "Clear_loop h b c i =
     (if i < n b then
        andThen (go_rem (r b + i) c) (\<lambda>j.
        andThen (store h (buf b) j 0) (\<lambda>h'.
        Clear_loop h' b c (i + 1)))
      else Inr h)"
  by pat_completeness auto
termination
  by (relation "measure (\<lambda>(h, b, c, i). nat (n b - i))") auto

definition Clear :: "'a::zero heap \<Rightarrow> Buffer \<Rightarrow> panic + (Buffer \<times> 'a heap)" where
  "Clear h b =
     (let c = len h (buf b)
      in andThen (Clear_loop h b c 0) (\<lambda>h'.
         Inr (b\<lparr>r := 0, n := 0\<rparr>, h')))"

text \<open>
  \<open>ToSlice\<close>, \<open>resize\<close> and \<open>Clone\<close> each run the loop
  \<open>for i := 0; i < b.n; i++ { dst[i] = b.buf[(b.r+i)%c] }\<close>, where \<open>dst\<close> is \<open>s\<close>,
  \<open>nb\<close> and \<open>b2.buf\<close>. The right-hand side is evaluated before the store.
\<close>

function copy_loop :: "'a heap \<Rightarrow> Buffer \<Rightarrow> int \<Rightarrow> addr \<Rightarrow> int \<Rightarrow> panic + 'a heap" where
  "copy_loop h b c dst i =
     (if i < n b then
        andThen (go_rem (r b + i) c) (\<lambda>j.
        andThen (load h (buf b) j) (\<lambda>x.
        andThen (store h dst i x) (\<lambda>h'.
        copy_loop h' b c dst (i + 1))))
      else Inr h)"
  by pat_completeness auto
termination
  by (relation "measure (\<lambda>(h, b, c, dst, i). nat (n b - i))") auto

definition ToSlice :: "'a::zero heap \<Rightarrow> Buffer \<Rightarrow> panic + (addr \<times> 'a heap)" where
  "ToSlice h b =
     andThen (make_slice h (n b)) (\<lambda>(s, h1).
     let c = len h1 (buf b)
     in andThen (copy_loop h1 b c s 0) (\<lambda>h2.
        Inr (s, h2)))"

definition resize :: "'a::zero heap \<Rightarrow> Buffer \<Rightarrow> int \<Rightarrow> panic + (Buffer \<times> 'a heap)" where
  "resize h b m =
     andThen (make_slice h m) (\<lambda>(nb, h1).
     let c = len h1 (buf b)
     in andThen (copy_loop h1 b c nb 0) (\<lambda>h2.
        Inr (b\<lparr>buf := nb, r := 0\<rparr>, h2)))"

text \<open>The argument the source calls \<open>n\<close> is \<open>m\<close> here; \<open>n\<close> is the field.\<close>

definition Resize :: "'a::zero heap \<Rightarrow> Buffer \<Rightarrow> int \<Rightarrow> panic + (Buffer \<times> 'a heap)" where
  "Resize h b m =
     (if m < 1 then Inl CapacityPanic
      else let c = len h (buf b)
           in if m = c then Inr (b, h)
              else let b1 = (if m < n b then b\<lparr>n := m\<rparr> else b)
                   in resize h b1 m)"

definition Clone :: "'a::zero heap \<Rightarrow> Buffer \<Rightarrow> panic + (Buffer \<times> 'a heap)" where
  "Clone h b =
     (let c = len h (buf b)
      in andThen (make_slice h c) (\<lambda>(a, h1).
         let b2 = \<lparr>buf = a, r = 0, n = n b\<rparr>
         in andThen (copy_loop h1 b c a 0) (\<lambda>h2.
            Inr (b2, h2))))"

subsection \<open>Iteration\<close>

text \<open>
  \<open>All\<close>, \<open>Values\<close> and \<open>Backward\<close> return a function that takes the consumer's
  \<open>yield\<close>; \<open>Do\<close> takes the callback directly. A Go callback is a closure with state of
  its own: here it maps its state \<open>'s\<close> to the flag it returns and its new state. The
  model runs the returned function on a \<open>yield\<close> and an initial state. The callback has
  no access to the buffer, as the package requires of its callers.
\<close>

function All_loop ::
  "'a heap \<Rightarrow> Buffer \<Rightarrow> (int \<Rightarrow> 'a \<Rightarrow> 's \<Rightarrow> bool \<times> 's) \<Rightarrow> int \<Rightarrow> int \<Rightarrow> 's \<Rightarrow> panic + 's" where
  "All_loop h b yield c i s =
     (if i < n b then
        andThen (go_rem (r b + i) c) (\<lambda>j.
        andThen (load h (buf b) j) (\<lambda>x.
        case yield i x s of (go_on, s') \<Rightarrow>
          if \<not> go_on then Inr s' else All_loop h b yield c (i + 1) s'))
      else Inr s)"
  by pat_completeness auto
termination
  by (relation "measure (\<lambda>(h, b, yield, c, i, s). nat (n b - i))") auto


function Values_loop ::
  "'a heap \<Rightarrow> Buffer \<Rightarrow> ('a \<Rightarrow> 's \<Rightarrow> bool \<times> 's) \<Rightarrow> int \<Rightarrow> int \<Rightarrow> 's \<Rightarrow> panic + 's" where
  "Values_loop h b yield c i s =
     (if i < n b then
        andThen (go_rem (r b + i) c) (\<lambda>j.
        andThen (load h (buf b) j) (\<lambda>x.
        case yield x s of (go_on, s') \<Rightarrow>
          if \<not> go_on then Inr s' else Values_loop h b yield c (i + 1) s'))
      else Inr s)"
  by pat_completeness auto
termination
  by (relation "measure (\<lambda>(h, b, yield, c, i, s). nat (n b - i))") auto


function Backward_loop ::
  "'a heap \<Rightarrow> Buffer \<Rightarrow> (int \<Rightarrow> 'a \<Rightarrow> 's \<Rightarrow> bool \<times> 's) \<Rightarrow> int \<Rightarrow> int \<Rightarrow> 's \<Rightarrow> panic + 's" where
  "Backward_loop h b yield c i s =
     (if i \<ge> 0 then
        andThen (go_rem (r b + i) c) (\<lambda>j.
        andThen (load h (buf b) j) (\<lambda>x.
        case yield i x s of (go_on, s') \<Rightarrow>
          if \<not> go_on then Inr s' else Backward_loop h b yield c (i - 1) s'))
      else Inr s)"
  by pat_completeness auto
termination
  by (relation "measure (\<lambda>(h, b, yield, c, i, s). nat (i + 1))") auto


function Do_loop ::
  "'a heap \<Rightarrow> Buffer \<Rightarrow> ('a \<Rightarrow> 's \<Rightarrow> bool \<times> 's) \<Rightarrow> int \<Rightarrow> int \<Rightarrow> 's \<Rightarrow> panic + 's" where
  "Do_loop h b f c i s =
     (if i < n b then
        andThen (go_rem (r b + i) c) (\<lambda>j.
        andThen (load h (buf b) j) (\<lambda>x.
        case f x s of (go_on, s') \<Rightarrow>
          if \<not> go_on then Inr s' else Do_loop h b f c (i + 1) s'))
      else Inr s)"
  by pat_completeness auto
termination
  by (relation "measure (\<lambda>(h, b, f, c, i, s). nat (n b - i))") auto


subsection \<open>The data-model invariant\<close>

text \<open>
  Physical slot \<open>j\<close> of a buffer of capacity \<open>C\<close> is live when it is
  \<open>(read + i) mod C\<close> for a logical index \<open>i\<close> below the count.
\<close>

definition live :: "Buffer \<Rightarrow> int \<Rightarrow> int \<Rightarrow> bool" where
  "live b C j = (\<exists>i\<in>{0..<n b}. (r b + i) mod C = j)"

definition invar :: "'a::zero heap \<Rightarrow> Buffer \<Rightarrow> bool" where
  "invar h b =
     (let C = len h (buf b)
      in 1 \<le> C \<and> 0 \<le> r b \<and> r b < C \<and> 0 \<le> n b \<and> n b \<le> C \<and>
         (\<forall>j\<in>{0..<length (arr h (buf b))}. \<not> live b C (int j) \<longrightarrow> arr h (buf b) ! j = 0))"

text \<open>The element at logical index \<open>i\<close>, read from the store directly.\<close>

definition slot :: "'a heap \<Rightarrow> Buffer \<Rightarrow> int \<Rightarrow> 'a" where
  "slot h b i = arr h (buf b) ! nat ((r b + i) mod len h (buf b))"

subsection \<open>Clients\<close>

text \<open>
  A client holds a pointer to one buffer and calls its public methods one after the
  other, dropping the values they return. \<open>ToSlice\<close> and \<open>Clone\<close> leave the struct as
  it is and extend the store. The iteration views and \<open>Do\<close> only read; they
  return the state of the consumer.
\<close>

datatype 'a op =
    OpPushBack 'a | OpPushFront 'a | OpPopBack | OpPopFront
  | OpFront | OpBack | OpAt int | OpSet int 'a
  | OpClear | OpToSlice | OpClone | OpResize int

fun step :: "'a::zero op \<Rightarrow> 'a heap \<Rightarrow> Buffer \<Rightarrow> panic + (Buffer \<times> 'a heap)" where
  "step (OpPushBack v) h b = andThen (PushBack h b v) (\<lambda>(_, b', h'). Inr (b', h'))"
| "step (OpPushFront v) h b = andThen (PushFront h b v) (\<lambda>(_, b', h'). Inr (b', h'))"
| "step OpPopBack h b = andThen (PopBack h b) (\<lambda>(_, b', h'). Inr (b', h'))"
| "step OpPopFront h b = andThen (PopFront h b) (\<lambda>(_, b', h'). Inr (b', h'))"
| "step OpFront h b = andThen (Front h b) (\<lambda>_. Inr (b, h))"
| "step OpBack h b = andThen (Back h b) (\<lambda>_. Inr (b, h))"
| "step (OpAt i) h b = andThen (At h b i) (\<lambda>_. Inr (b, h))"
| "step (OpSet i v) h b = andThen (Set h b i v) (\<lambda>(_, h'). Inr (b, h'))"
| "step OpClear h b = Clear h b"
| "step OpToSlice h b = andThen (ToSlice h b) (\<lambda>(_, h'). Inr (b, h'))"
| "step OpClone h b = andThen (Clone h b) (\<lambda>(_, h'). Inr (b, h'))"
| "step (OpResize m) h b = Resize h b m"





definition collect :: "'a \<Rightarrow> 'a list \<Rightarrow> bool \<times> 'a list" where
  "collect x s = (True, s @ [x])"

text \<open>The loops are unfolded one iteration at a time, where a proof asks for it.\<close>

declare Clear_loop.simps [simp del] copy_loop.simps [simp del] All_loop.simps [simp del]
  Values_loop.simps [simp del] Backward_loop.simps [simp del] Do_loop.simps [simp del]

section \<open>Properties of the operations\<close>

subsection \<open>Sequencing, the remainder and the store\<close>

lemma andThen_Inr [simp]: "andThen (Inr x) f = f x"
  by (simp add: andThen_def)

lemma andThen_Inl [simp]: "andThen (Inl e) f = Inl e"
  by (simp add: andThen_def)




lemma len_pos_valid: "0 < len h a \<Longrightarrow> a < length h"
  by (simp add: len_def arr_def split: if_splits)



subsection \<open>The invariant, taken apart\<close>

lemma invar_bounds:
  assumes "invar h b"
  shows "buf b < length h" and "1 \<le> len h (buf b)" and "0 \<le> r b" and "r b < len h (buf b)"
    and "0 \<le> n b" and "n b \<le> len h (buf b)"
  using assms by (auto simp: invar_def Let_def intro: len_pos_valid)






text \<open>
  On a well-formed buffer every sum the code forms before it takes a remainder lies
  between 0 and twice the capacity, so none of them wraps around in a 64-bit \<open>int\<close>
  as long as the capacity is at most \<open>2 ^ 62\<close>.
\<close>

lemma sums_stay_small:
  assumes "invar h b" and "0 \<le> i" and "i < n b"
  shows "0 \<le> r b + i \<and> r b + i < 2 * len h (buf b)"
    and "0 \<le> r b + 1 \<and> r b + 1 < 2 * len h (buf b)"
    and "0 \<le> r b + len h (buf b) - 1 \<and> r b + len h (buf b) - 1 < 2 * len h (buf b)"
    and "0 \<le> r b + n b - 1 \<and> r b + n b - 1 < 2 * len h (buf b)"
    and "n b \<noteq> len h (buf b) \<Longrightarrow> 0 \<le> r b + (n b + 1) - 1 \<and> r b + (n b + 1) - 1 < 2 * len h (buf b)"
  using invar_bounds [OF assms(1)] assms(2,3) by simp_all

subsection \<open>What each operation returns on a well-formed buffer\<close>













subsection \<open>Push, pop and \<open>Set\<close> keep the invariant\<close>








subsection \<open>\<open>Clear\<close>\<close>




subsection \<open>Push followed by pop\<close>





subsection \<open>Copies into a fresh array\<close>



lemma slot_truncate [simp]: "slot h (b\<lparr>n := k\<rparr>) i = slot h b i"
  by (simp add: slot_def)









subsection \<open>The iteration loops\<close>







subsection \<open>Every operation returns, keeps the invariant and leaves other arrays alone\<close>















subsection \<open>Reachable states\<close>


subsection \<open>Pushes on a full buffer\<close>




subsection \<open>Evaluating the definitions on concrete buffers\<close>




section \<open>The claims\<close>

subsection \<open>C1\<close>



subsection \<open>C2\<close>




subsection \<open>C3\<close>



subsection \<open>C4\<close>



subsection \<open>C5\<close>




subsection \<open>C6\<close>



subsection \<open>C7\<close>



subsection \<open>C8\<close>



subsection \<open>C9\<close>



subsection \<open>C10\<close>

text \<open>
  C10. A failed operation changes nothing: \<open>PopFront\<close> and \<open>PopBack\<close> on an empty
  buffer, and \<open>Set(i, v)\<close> and \<open>At(i)\<close> with \<open>i < 0\<close> or \<open>i \<ge> Len()\<close>, leave the struct
  and every backing array as they were.
\<close>

theorem failed_operations_change_nothing:
  fixes h :: "'a::zero heap"
  shows "(Empty b \<longrightarrow>
            PopFront h b = Inr ((0, False), b, h) \<and> PopBack h b = Inr ((0, False), b, h)) \<and>
         (i < 0 \<or> Len b \<le> i \<longrightarrow>
            Set h b i v = Inr (False, h) \<and> step (OpSet i v) h b = Inr (b, h) \<and>
            At h b i = Inr (0, False) \<and> step (OpAt i) h b = Inr (b, h))"
proof (intro conjI impI)
  assume "Empty b"
  then have e: "n b = 0" by (simp add: Empty_def)
  then show "PopFront h b = Inr ((0, False), b, h)" by (simp add: PopFront_def)
  from e show "PopBack h b = Inr ((0, False), b, h)" by (simp add: PopBack_def)
next
  assume "i < 0 \<or> Len b \<le> i"
  then have out: "i < 0 \<or> n b \<le> i" by (simp add: Len_def)
  then show s: "Set h b i v = Inr (False, h)" by (simp add: Set_def)
  then show "step (OpSet i v) h b = Inr (b, h)" by simp
  from out show a: "At h b i = Inr (0, False)" by (simp add: At_def)
  then show "step (OpAt i) h b = Inr (b, h)" by simp
qed

theorem failed_operations_change_nothing_witness:
  "Empty \<lparr>buf = 0, r = 1, n = 0\<rparr> \<and>
   PopFront [[0, 0, 0::int]] \<lparr>buf = 0, r = 1, n = 0\<rparr> =
     Inr ((0, False), \<lparr>buf = 0, r = 1, n = 0\<rparr>, [[0, 0, 0]]) \<and>
   PopBack [[0, 0, 0::int]] \<lparr>buf = 0, r = 1, n = 0\<rparr> =
     Inr ((0, False), \<lparr>buf = 0, r = 1, n = 0\<rparr>, [[0, 0, 0]]) \<and>
   Len \<lparr>buf = 0, r = 1, n = 2\<rparr> \<le> 2 \<and>
   Set [[0, 7, 9::int]] \<lparr>buf = 0, r = 1, n = 2\<rparr> 2 5 = Inr (False, [[0, 7, 9]]) \<and>
   step (OpSet (- 1) 5) [[0, 7, 9::int]] \<lparr>buf = 0, r = 1, n = 2\<rparr> =
     Inr (\<lparr>buf = 0, r = 1, n = 2\<rparr>, [[0, 7, 9]]) \<and>
   step (OpAt 2) [[0, 7, 9::int]] \<lparr>buf = 0, r = 1, n = 2\<rparr> =
     Inr (\<lparr>buf = 0, r = 1, n = 2\<rparr>, [[0, 7, 9]])"
proof -
  let ?h = "[[0, 7, 9::int]]" and ?b = "\<lparr>buf = 0, r = 1, n = 2\<rparr>"
  let ?g = "[[0, 0, 0::int]]" and ?c = "\<lparr>buf = 0, r = 1, n = 0\<rparr>"
  have e: "Empty ?c"
    by (simp add: Empty_def)
  have l: "Len ?b \<le> 2"
    by (simp add: Len_def)
  from failed_operations_change_nothing [of ?c ?g] e
  have "PopFront ?g ?c = Inr ((0, False), ?c, ?g)" "PopBack ?g ?c = Inr ((0, False), ?c, ?g)"
    by simp_all
  moreover from failed_operations_change_nothing [of ?b ?h 2 5] l
  have "Set ?h ?b 2 5 = Inr (False, ?h)" "step (OpAt 2) ?h ?b = Inr (?b, ?h)"
    by simp_all
  moreover from failed_operations_change_nothing [of ?b ?h "- 1" 5]
  have "step (OpSet (- 1) 5) ?h ?b = Inr (?b, ?h)"
    by simp
  ultimately show ?thesis using e l by simp
qed

end
